theory Spec2Isabelle
  imports Main "HOL-Library.Monad_Syntax" "HOL-Library.Multiset"
begin

section \<open>Planning projects: data model\<close>

text \<open>
  The two enums of the migration (\<^verbatim>\<open>CREATE TYPE "PlanningProjectType"\<close>,
  \<^verbatim>\<open>CREATE TYPE "PlanningProjectStatus"\<close>), with the same members in the same order.
\<close>

datatype PlanningProjectType =
    COMPREHENSIVE_PLAN | BIKE_PLAN | PEDESTRIAN_PLAN | WALKABILITY_STUDY
  | TRANSIT_RIDERSHIP_FORECAST | SS4A_SAFETY_PLAN | FOOD_DESERT_ANALYSIS
  | COMMUNITY_HEALTH_PLAN | NEIGHBORHOOD_PLAN | ROAD_DIET_ANALYSIS
  | ROADWAY_REMOVAL_FOR_PARKS | CUSTOM

datatype PlanningProjectStatus =
    DRAFT | SCOPING | IN_PROGRESS | REVIEW | COMPLETE | ARCHIVED

text \<open>
  A JSON value: what an RPC input is before its schema has parsed it, and what the two
  JSONB columns hold. Numbers are opaque to this code and are kept as integers.
\<close>

datatype json =
    JNull | JBool bool | JNum int | JStr string
  | JArr "json list" | JObj "(string \<times> json) list"

text \<open>
  One row of table \<^verbatim>\<open>"PlanningProject"\<close>. Column \<^verbatim>\<open>id\<close> is field \<open>pid\<close> and column
  \<^verbatim>\<open>type\<close> is field \<open>ptype\<close>; a nullable column is an \<open>option\<close>; timestamps are
  milliseconds.
\<close>

record PlanningProject =
  pid :: string
  name :: string
  description :: string
  ptype :: PlanningProjectType
  status :: PlanningProjectStatus
  organizationId :: int
  createdById :: "int option"
  config :: "json option"
  conversationHistory :: "json option"
  createdAt :: nat
  updatedAt :: nat

text \<open>The columns of the related tables that the queries select.\<close>

record User =
  user_id :: int
  user_name :: string
  user_email :: string

record WrappedFeatureCollection =
  wfc_id :: string
  wfc_name :: string
  wfc_description :: string

record PlanningProjectMap =
  ppm_id :: string
  planningProjectId :: string
  wrappedFeatureCollectionId :: string
  purpose :: "string option"
  ppm_createdAt :: nat

text \<open>
  The calls the resolvers make on \<^verbatim>\<open>db.planningProject\<close>, recorded in the order they are
  made, so that "no database operation" and "before any write" are statements about
  the state.
\<close>

datatype DbCall = FindFirst | FindMany | Create | Update | Delete

record Store =
  organization :: "int list"
  user :: "User list"
  wrappedFeatureCollection :: "WrappedFeatureCollection list"
  planningProject :: "PlanningProject list"
  planningProjectMap :: "PlanningProjectMap list"
  calls :: "DbCall list"

text \<open>
  The session of the resolver context: \<^verbatim>\<open>userId\<close>, \<^verbatim>\<open>orgId\<close> (a number or undefined) and
  whether \<^verbatim>\<open>$authorize()\<close> returns rather than throws.
\<close>

record Session =
  userId :: "int option"
  orgId :: "int option"
  authorize_ok :: bool

datatype error =
    ZodError
  | AuthenticationError
  | Error string
  | PrismaClientKnownRequestError string

section \<open>Input schemas\<close>

text \<open>
  \<^verbatim>\<open>z.object\<close> accepts an object and reads its keys; a key that is absent is undefined.
\<close>

fun z_object :: "json \<Rightarrow> (string \<rightharpoonup> json) option" where
  "z_object (JObj kvs) = Some (map_of kvs)"
| "z_object _ = None"

fun z_string :: "json option \<Rightarrow> string option" where
  "z_string (Some (JStr s)) = Some s"
| "z_string _ = None"

fun z_string_optional :: "json option \<Rightarrow> string option option" where
  "z_string_optional None = Some None"
| "z_string_optional (Some (JStr s)) = Some (Some s)"
| "z_string_optional _ = None"

definition is_hex :: "char \<Rightarrow> bool" where
  "is_hex c \<longleftrightarrow> c \<in> set ''0123456789abcdefABCDEF''"

text \<open>
  The shape \<^verbatim>\<open>z.string().uuid()\<close> checks: groups of 8, 4, 4, 4 and 12 hexadecimal
  digits separated by hyphens. Every index read lies below the length checked first.
\<close>

definition is_uuid :: "string \<Rightarrow> bool" where
  "is_uuid s \<longleftrightarrow>
     length s = 36 \<and>
     list_all is_hex (take 8 s) \<and> s ! 8 = CHR ''-'' \<and>
     list_all is_hex (take 4 (drop 9 s)) \<and> s ! 13 = CHR ''-'' \<and>
     list_all is_hex (take 4 (drop 14 s)) \<and> s ! 18 = CHR ''-'' \<and>
     list_all is_hex (take 4 (drop 19 s)) \<and> s ! 23 = CHR ''-'' \<and>
     list_all is_hex (drop 24 s)"

definition z_string_uuid :: "json option \<Rightarrow> string option" where
  "z_string_uuid v =
     (case z_string v of
        None \<Rightarrow> None
      | Some s \<Rightarrow> if is_uuid s then Some s else None)"

definition PlanningProjectType_of :: "string \<Rightarrow> PlanningProjectType option" where
  "PlanningProjectType_of s =
     (if s = ''COMPREHENSIVE_PLAN'' then Some COMPREHENSIVE_PLAN
      else if s = ''BIKE_PLAN'' then Some BIKE_PLAN
      else if s = ''PEDESTRIAN_PLAN'' then Some PEDESTRIAN_PLAN
      else if s = ''WALKABILITY_STUDY'' then Some WALKABILITY_STUDY
      else if s = ''TRANSIT_RIDERSHIP_FORECAST'' then Some TRANSIT_RIDERSHIP_FORECAST
      else if s = ''SS4A_SAFETY_PLAN'' then Some SS4A_SAFETY_PLAN
      else if s = ''FOOD_DESERT_ANALYSIS'' then Some FOOD_DESERT_ANALYSIS
      else if s = ''COMMUNITY_HEALTH_PLAN'' then Some COMMUNITY_HEALTH_PLAN
      else if s = ''NEIGHBORHOOD_PLAN'' then Some NEIGHBORHOOD_PLAN
      else if s = ''ROAD_DIET_ANALYSIS'' then Some ROAD_DIET_ANALYSIS
      else if s = ''ROADWAY_REMOVAL_FOR_PARKS'' then Some ROADWAY_REMOVAL_FOR_PARKS
      else if s = ''CUSTOM'' then Some CUSTOM
      else None)"

definition PlanningProjectStatus_of :: "string \<Rightarrow> PlanningProjectStatus option" where
  "PlanningProjectStatus_of s =
     (if s = ''DRAFT'' then Some DRAFT
      else if s = ''SCOPING'' then Some SCOPING
      else if s = ''IN_PROGRESS'' then Some IN_PROGRESS
      else if s = ''REVIEW'' then Some REVIEW
      else if s = ''COMPLETE'' then Some COMPLETE
      else if s = ''ARCHIVED'' then Some ARCHIVED
      else None)"

text \<open>\<^verbatim>\<open>z.nativeEnum(E).optional()\<close>: undefined, or one of the enum's string values.\<close>

fun z_nativeEnum_optional :: "(string \<Rightarrow> 'e option) \<Rightarrow> json option \<Rightarrow> 'e option option" where
  "z_nativeEnum_optional of_string None = Some None"
| "z_nativeEnum_optional of_string (Some (JStr s)) =
     (case of_string s of None \<Rightarrow> None | Some e \<Rightarrow> Some (Some e))"
| "z_nativeEnum_optional of_string _ = None"

text \<open>\<^verbatim>\<open>z.any().optional()\<close> accepts every value.\<close>

definition z_any_optional :: "json option \<Rightarrow> json option option" where
  "z_any_optional v = Some v"

text \<open>
  \<^verbatim>\<open>const { id, ...data } = input\<close>: the parsed input of updatePlanningProject is the id
  and the rest, and the rest is what is passed to \<^verbatim>\<open>update\<close> as \<^verbatim>\<open>data\<close>.
\<close>

record UpdateData =
  d_name :: "string option"
  d_description :: "string option"
  d_type :: "PlanningProjectType option"
  d_status :: "PlanningProjectStatus option"
  d_config :: "json option"
  d_conversationHistory :: "json option"

definition UpdatePlanningProjectSchema :: "json \<Rightarrow> (string \<times> UpdateData) option" where
  "UpdatePlanningProjectSchema raw = do {
     f \<leftarrow> z_object raw;
     i \<leftarrow> z_string_uuid (f ''id'');
     n \<leftarrow> z_string_optional (f ''name'');
     d \<leftarrow> z_string_optional (f ''description'');
     t \<leftarrow> z_nativeEnum_optional PlanningProjectType_of (f ''type'');
     s \<leftarrow> z_nativeEnum_optional PlanningProjectStatus_of (f ''status'');
     c \<leftarrow> z_any_optional (f ''config'');
     h \<leftarrow> z_any_optional (f ''conversationHistory'');
     Some (i, \<lparr>d_name = n, d_description = d, d_type = t, d_status = s,
               d_config = c, d_conversationHistory = h\<rparr>)
   }"

record CreateInput =
  c_name :: "string option"
  c_description :: "string option"
  c_type :: "PlanningProjectType option"

definition CreatePlanningProjectSchema :: "json \<Rightarrow> CreateInput option" where
  "CreatePlanningProjectSchema raw = do {
     f \<leftarrow> z_object raw;
     n \<leftarrow> z_string_optional (f ''name'');
     d \<leftarrow> z_string_optional (f ''description'');
     t \<leftarrow> z_nativeEnum_optional PlanningProjectType_of (f ''type'');
     Some \<lparr>c_name = n, c_description = d, c_type = t\<rparr>
   }"

definition DeletePlanningProjectSchema :: "json \<Rightarrow> string option" where
  "DeletePlanningProjectSchema raw = do {
     f \<leftarrow> z_object raw;
     z_string_uuid (f ''id'')
   }"

definition GetPlanningProjectSchema :: "json \<Rightarrow> string option" where
  "GetPlanningProjectSchema raw = do {
     f \<leftarrow> z_object raw;
     z_string_uuid (f ''id'')
   }"

definition GetPlanningProjectsSchema :: "json \<Rightarrow> PlanningProjectStatus option option" where
  "GetPlanningProjectsSchema raw = do {
     f \<leftarrow> z_object raw;
     z_nativeEnum_optional PlanningProjectStatus_of (f ''status'')
   }"

text \<open>
  The first two stages of every \<^verbatim>\<open>resolver.pipe\<close>: \<^verbatim>\<open>resolver.zod(schema)\<close> throws when
  the schema rejects the input, \<^verbatim>\<open>resolver.authorize()\<close> throws when \<^verbatim>\<open>$authorize()\<close> does.
\<close>

definition resolver_zod :: "(json \<Rightarrow> 'i option) \<Rightarrow> json \<Rightarrow> error + 'i" where
  "resolver_zod schema raw = (case schema raw of None \<Rightarrow> Inl ZodError | Some i \<Rightarrow> Inr i)"

definition resolver_authorize :: "Session \<Rightarrow> error + unit" where
  "resolver_authorize ctx = (if authorize_ok ctx then Inr () else Inl AuthenticationError)"

definition resolver_pipe ::
  "(json \<Rightarrow> 'i option) \<Rightarrow> ('i \<Rightarrow> Session \<Rightarrow> Store \<Rightarrow> (error + 'r) \<times> Store) \<Rightarrow>
   json \<Rightarrow> Session \<Rightarrow> Store \<Rightarrow> (error + 'r) \<times> Store" where
  "resolver_pipe schema body raw ctx db =
     (case resolver_zod schema raw of
        Inl e \<Rightarrow> (Inl e, db)
      | Inr input \<Rightarrow>
          (case resolver_authorize ctx of
             Inl e \<Rightarrow> (Inl e, db)
           | Inr _ \<Rightarrow> body input ctx db))"

section \<open>The Prisma calls on \<^verbatim>\<open>db.planningProject\<close>\<close>

text \<open>
  A \<^verbatim>\<open>where\<close> object: each key is a value or undefined, and a key that is undefined
  filters nothing (Prisma drops it from the query).
\<close>

record PlanningProjectWhere =
  where_id :: "string option"
  where_organizationId :: "int option"
  where_status :: "PlanningProjectStatus option"

definition matches :: "PlanningProjectWhere \<Rightarrow> PlanningProject \<Rightarrow> bool" where
  "matches w p \<longleftrightarrow>
     (case where_id w of None \<Rightarrow> True | Some i \<Rightarrow> pid p = i) \<and>
     (case where_organizationId w of None \<Rightarrow> True | Some out \<Rightarrow> organizationId p = out) \<and>
     (case where_status w of None \<Rightarrow> True | Some st \<Rightarrow> status p = st)"

definition log_call :: "DbCall \<Rightarrow> Store \<Rightarrow> Store" where
  "log_call c db = db\<lparr>calls := calls db @ [c]\<rparr>"

definition findFirst :: "PlanningProjectWhere \<Rightarrow> Store \<Rightarrow> PlanningProject option \<times> Store" where
  "findFirst w db = (find (matches w) (planningProject db), log_call FindFirst db)"

text \<open>\<^verbatim>\<open>orderBy: { updatedAt: "desc" }\<close>: the matching rows, latest update first.\<close>

definition findMany :: "PlanningProjectWhere \<Rightarrow> Store \<Rightarrow> PlanningProject list \<times> Store" where
  "findMany w db =
     (rev (sort_key updatedAt (filter (matches w) (planningProject db))), log_call FindMany db)"

text \<open>
  \<^verbatim>\<open>create\<close>: the \<^verbatim>\<open>data\<close> of createPlanningProject gives six columns; \<^verbatim>\<open>id\<close> and
  \<^verbatim>\<open>createdAt\<close> take their column defaults (a generated UUID \<open>newId\<close>, the current time
  \<open>now\<close>), \<^verbatim>\<open>updatedAt\<close> is the current time, the two JSONB columns are NULL. The primary
  key and the two foreign keys of the migration are checked.
\<close>

record CreateData =
  cd_name :: string
  cd_description :: string
  cd_type :: PlanningProjectType
  cd_status :: PlanningProjectStatus
  cd_organizationId :: int
  cd_createdById :: "int option"

definition create ::
  "string \<Rightarrow> nat \<Rightarrow> CreateData \<Rightarrow> Store \<Rightarrow> (error + PlanningProject) \<times> Store" where
  "create newId now data db =
     (let db1 = log_call Create db;
          p = \<lparr>pid = newId, name = cd_name data, description = cd_description data,
               ptype = cd_type data, status = cd_status data,
               organizationId = cd_organizationId data, createdById = cd_createdById data,
               config = None, conversationHistory = None,
               createdAt = now, updatedAt = now\<rparr>
      in if newId \<in> set (map pid (planningProject db))
         then (Inl (PrismaClientKnownRequestError ''P2002''), db1)
         else if cd_organizationId data \<notin> set (organization db)
         then (Inl (PrismaClientKnownRequestError ''P2003''), db1)
         else if (case cd_createdById data of
                    None \<Rightarrow> False
                  | Some u \<Rightarrow> u \<notin> set (map user_id (user db)))
         then (Inl (PrismaClientKnownRequestError ''P2003''), db1)
         else (Inr p, db1\<lparr>planningProject := planningProject db @ [p]\<rparr>))"

text \<open>
  \<^verbatim>\<open>update\<close>: a key of \<^verbatim>\<open>data\<close> that is undefined leaves its column as it is; \<^verbatim>\<open>updatedAt\<close>
  becomes the current time. The call throws when no row has the id.
\<close>

definition apply_data :: "UpdateData \<Rightarrow> nat \<Rightarrow> PlanningProject \<Rightarrow> PlanningProject" where
  "apply_data data now p =
     p\<lparr>name := (case d_name data of None \<Rightarrow> name p | Some n \<Rightarrow> n),
       description := (case d_description data of None \<Rightarrow> description p | Some d \<Rightarrow> d),
       ptype := (case d_type data of None \<Rightarrow> ptype p | Some t \<Rightarrow> t),
       status := (case d_status data of None \<Rightarrow> status p | Some s \<Rightarrow> s),
       config := (case d_config data of None \<Rightarrow> config p | Some c \<Rightarrow> Some c),
       conversationHistory :=
         (case d_conversationHistory data of
            None \<Rightarrow> conversationHistory p
          | Some h \<Rightarrow> Some h),
       updatedAt := now\<rparr>"

definition update ::
  "string \<Rightarrow> UpdateData \<Rightarrow> nat \<Rightarrow> Store \<Rightarrow> (error + PlanningProject) \<times> Store" where
  "update i data now db =
     (let db1 = log_call Update db
      in case find (\<lambda>p. pid p = i) (planningProject db) of
           None \<Rightarrow> (Inl (PrismaClientKnownRequestError ''P2025''), db1)
         | Some p \<Rightarrow>
             (Inr (apply_data data now p),
              db1\<lparr>planningProject :=
                    map (\<lambda>q. if pid q = i then apply_data data now q else q)
                      (planningProject db)\<rparr>))"

text \<open>
  \<^verbatim>\<open>delete\<close>: the row goes, and with it the rows of \<^verbatim>\<open>"PlanningProjectMap"\<close> that
  reference it (\<^verbatim>\<open>ON DELETE CASCADE\<close>). The call throws when no row has the id.
\<close>

definition delete ::
  "string \<Rightarrow> Store \<Rightarrow> (error + PlanningProject) \<times> Store" where
  "delete i db =
     (let db1 = log_call Delete db
      in case find (\<lambda>p. pid p = i) (planningProject db) of
           None \<Rightarrow> (Inl (PrismaClientKnownRequestError ''P2025''), db1)
         | Some p \<Rightarrow>
             (Inr p,
              db1\<lparr>planningProject := filter (\<lambda>q. pid q \<noteq> i) (planningProject db),
                  planningProjectMap :=
                    filter (\<lambda>m. planningProjectId m \<noteq> i) (planningProjectMap db)\<rparr>))"

section \<open>The resolvers\<close>

text \<open>
  \<^verbatim>\<open>!x\<close> for a number or undefined, and \<^verbatim>\<open>x || d\<close> for a string or undefined: undefined,
  0 and the empty string are falsy.
\<close>

definition or_string :: "string option \<Rightarrow> string \<Rightarrow> string" where
  "or_string x d = (case x of None \<Rightarrow> d | Some s \<Rightarrow> if s = [] then d else s)"

text \<open>What \<^verbatim>\<open>include\<close> adds to a row: the creator, and the linked maps or their count.\<close>

definition createdBy :: "Store \<Rightarrow> PlanningProject \<Rightarrow> User option" where
  "createdBy db p =
     (case createdById p of
        None \<Rightarrow> None
      | Some u \<Rightarrow> find (\<lambda>x. user_id x = u) (user db))"

definition linkedMaps ::
  "Store \<Rightarrow> PlanningProject \<Rightarrow> (PlanningProjectMap \<times> WrappedFeatureCollection option) list" where
  "linkedMaps db p =
     map (\<lambda>m. (m, find (\<lambda>w. wfc_id w = wrappedFeatureCollectionId m)
                     (wrappedFeatureCollection db)))
       (filter (\<lambda>m. planningProjectId m = pid p) (planningProjectMap db))"

record PlanningProjectDetail =
  detail_project :: PlanningProject
  detail_createdBy :: "User option"
  detail_linkedMaps :: "(PlanningProjectMap \<times> WrappedFeatureCollection option) list"

record PlanningProjectSummary =
  summary_project :: PlanningProject
  summary_createdBy :: "User option"
  summary_count_linkedMaps :: nat

definition getPlanningProject_resolver ::
  "string \<Rightarrow> Session \<Rightarrow> Store \<Rightarrow> (error + PlanningProjectDetail) \<times> Store" where
  "getPlanningProject_resolver i ctx db =
     (case findFirst \<lparr>where_id = Some i, where_organizationId = orgId ctx,
                       where_status = None\<rparr> db of
        (None, db1) \<Rightarrow> (Inl (Error ''Planning project not found''), db1)
      | (Some p, db1) \<Rightarrow>
          (Inr \<lparr>detail_project = p, detail_createdBy = createdBy db p,
                 detail_linkedMaps = linkedMaps db p\<rparr>, db1))"

definition getPlanningProject ::
  "json \<Rightarrow> Session \<Rightarrow> Store \<Rightarrow> (error + PlanningProjectDetail) \<times> Store" where
  "getPlanningProject = resolver_pipe GetPlanningProjectSchema getPlanningProject_resolver"

definition getPlanningProjects_resolver ::
  "PlanningProjectStatus option \<Rightarrow> Session \<Rightarrow> Store \<Rightarrow>
   (error + PlanningProjectSummary list) \<times> Store" where
  "getPlanningProjects_resolver st ctx db =
     (case orgId ctx of
        None \<Rightarrow> (Inl (Error ''No organization found''), db)
      | Some out \<Rightarrow>
          if out = 0 then (Inl (Error ''No organization found''), db)
          else
            (case findMany \<lparr>where_id = None, where_organizationId = Some out,
                             where_status = st\<rparr> db of
               (projects, db1) \<Rightarrow>
                 (Inr (map (\<lambda>p. \<lparr>summary_project = p, summary_createdBy = createdBy db p,
                                   summary_count_linkedMaps = length (linkedMaps db p)\<rparr>)
                         projects), db1)))"

definition getPlanningProjects ::
  "json \<Rightarrow> Session \<Rightarrow> Store \<Rightarrow> (error + PlanningProjectSummary list) \<times> Store" where
  "getPlanningProjects = resolver_pipe GetPlanningProjectsSchema getPlanningProjects_resolver"

text \<open>
  createPlanningProject. \<open>newId\<close> and \<open>now\<close> are what the database generates for the
  row: its UUID and the current time.
\<close>

definition createPlanningProject_resolver ::
  "string \<Rightarrow> nat \<Rightarrow> CreateInput \<Rightarrow> Session \<Rightarrow> Store \<Rightarrow> (error + PlanningProject) \<times> Store" where
  "createPlanningProject_resolver newId now input ctx db =
     (case orgId ctx of
        None \<Rightarrow> (Inl (Error ''No organization found''), db)
      | Some out \<Rightarrow>
          if out = 0 then (Inl (Error ''No organization found''), db)
          else
            create newId now
              \<lparr>cd_name = or_string (c_name input) ''Untitled Planning Project'',
               cd_description = or_string (c_description input) [],
               cd_type = (case c_type input of None \<Rightarrow> CUSTOM | Some t \<Rightarrow> t),
               cd_status = DRAFT,
               cd_organizationId = out,
               cd_createdById = userId ctx\<rparr> db)"

definition createPlanningProject ::
  "string \<Rightarrow> nat \<Rightarrow> json \<Rightarrow> Session \<Rightarrow> Store \<Rightarrow> (error + PlanningProject) \<times> Store" where
  "createPlanningProject newId now =
     resolver_pipe CreatePlanningProjectSchema (createPlanningProject_resolver newId now)"

text \<open>
  updatePlanningProject and deletePlanningProject read the row's \<^verbatim>\<open>organizationId\<close> by
  id alone, compare it with the session's \<^verbatim>\<open>orgId\<close> by \<^verbatim>\<open>!==\<close>, and only then write.
\<close>

definition updatePlanningProject_resolver ::
  "nat \<Rightarrow> string \<times> UpdateData \<Rightarrow> Session \<Rightarrow> Store \<Rightarrow> (error + PlanningProject) \<times> Store" where
  "updatePlanningProject_resolver now input ctx db =
     (case input of (i, data) \<Rightarrow>
        (case findFirst \<lparr>where_id = Some i, where_organizationId = None,
                          where_status = None\<rparr> db of
           (None, db1) \<Rightarrow> (Inl (Error ''Planning project not found''), db1)
         | (Some project, db1) \<Rightarrow>
             if Some (organizationId project) \<noteq> orgId ctx
             then (Inl (Error ''Not authorized to update this project''), db1)
             else update i data now db1))"

definition updatePlanningProject ::
  "nat \<Rightarrow> json \<Rightarrow> Session \<Rightarrow> Store \<Rightarrow> (error + PlanningProject) \<times> Store" where
  "updatePlanningProject now =
     resolver_pipe UpdatePlanningProjectSchema (updatePlanningProject_resolver now)"

record DeleteResult =
  success :: bool

definition deletePlanningProject_resolver ::
  "string \<Rightarrow> Session \<Rightarrow> Store \<Rightarrow> (error + DeleteResult) \<times> Store" where
  "deletePlanningProject_resolver i ctx db =
     (case findFirst \<lparr>where_id = Some i, where_organizationId = None,
                       where_status = None\<rparr> db of
        (None, db1) \<Rightarrow> (Inl (Error ''Planning project not found''), db1)
      | (Some project, db1) \<Rightarrow>
          if Some (organizationId project) \<noteq> orgId ctx
          then (Inl (Error ''Not authorized to delete this project''), db1)
          else
            (case delete i db1 of
               (Inl e, db2) \<Rightarrow> (Inl e, db2)
             | (Inr _, db2) \<Rightarrow> (Inr \<lparr>success = True\<rparr>, db2)))"

definition deletePlanningProject ::
  "json \<Rightarrow> Session \<Rightarrow> Store \<Rightarrow> (error + DeleteResult) \<times> Store" where
  "deletePlanningProject = resolver_pipe DeletePlanningProjectSchema deletePlanningProject_resolver"

section \<open>The project list's delete handler\<close>

text \<open>
  What \<^verbatim>\<open>handleDelete\<close> does to the outside, in order: the confirm dialog, the mutation
  call, the query invalidation, Sentry and the two toasts.
\<close>

datatype 'e UiEffect =
    Confirm string
  | DeletePlanningProjectMutation string
  | InvalidateQuery_getPlanningProjects
  | ToastSuccess string
  | SentryCaptureException 'e
  | ToastError string

text \<open>
  An async function body: it extends the trace of effects and either returns a value or
  throws. \<open>call\<close> is one call to the outside with the outcome the outside gives it,
  \<open>andThen\<close> is sequencing (a throw skips the rest), \<open>tryCatch\<close> is \<^verbatim>\<open>try { } catch (error) { }\<close>.
\<close>

type_synonym ('e, 'a) async = "'e UiEffect list \<Rightarrow> ('e + 'a) \<times> 'e UiEffect list"

definition call :: "'e UiEffect \<Rightarrow> 'e + 'a \<Rightarrow> ('e, 'a) async" where
  "call c outcome tr = (outcome, tr @ [c])"

definition andThen :: "('e, 'a) async \<Rightarrow> ('a \<Rightarrow> ('e, 'b) async) \<Rightarrow> ('e, 'b) async" where
  "andThen m k tr = (case m tr of (Inl e, tr1) \<Rightarrow> (Inl e, tr1) | (Inr a, tr1) \<Rightarrow> k a tr1)"

definition tryCatch :: "('e, 'a) async \<Rightarrow> ('e \<Rightarrow> ('e, 'a) async) \<Rightarrow> ('e, 'a) async" where
  "tryCatch m handler tr =
     (case m tr of (Inl e, tr1) \<Rightarrow> handler e tr1 | (Inr a, tr1) \<Rightarrow> (Inr a, tr1))"

text \<open>
  \<open>confirmed\<close> is what \<^verbatim>\<open>confirm\<close> returns, \<open>mutation\<close> what awaiting the mutation gives
  (a rejection for whatever reason, or its result), \<open>invalidation\<close> what awaiting
  \<^verbatim>\<open>invalidateQuery\<close> gives.
\<close>

definition handleDelete ::
  "string \<Rightarrow> string \<Rightarrow> bool \<Rightarrow> 'e + DeleteResult \<Rightarrow> 'e + unit \<Rightarrow> ('e, unit) async" where
  "handleDelete i nm confirmed mutation invalidation =
     andThen (call (Confirm (''Are you sure you want to delete '' @ [CHR 0x22] @ nm @ [CHR 0x22] @ ''?''))
                (Inr confirmed))
       (\<lambda>yes.
          if \<not> yes then Pair (Inr ())
          else
            tryCatch
              (andThen (call (DeletePlanningProjectMutation i) mutation)
                 (\<lambda>_. andThen (call InvalidateQuery_getPlanningProjects invalidation)
                   (\<lambda>_. call (ToastSuccess ''Planning project deleted'') (Inr ()))))
              (\<lambda>error.
                 andThen (call (SentryCaptureException error) (Inr ()))
                   (\<lambda>_. call (ToastError ''Failed to delete planning project'') (Inr ()))))"

section \<open>The push endpoint\<close>

text \<open>
  Modelled from the spec: the mutation record of the data model,
  \<^verbatim>\<open>{id, name, args, clientId, timestamp}\<close>; the push endpoint that receives it is not
  among the sources.
\<close>

record Mutation =
  m_id :: nat
  m_name :: string
  m_args :: json
  m_clientId :: string
  m_timestamp :: nat

text \<open>
  Modelled from the spec: the per-mutation result of the push endpoint,
  \<^verbatim>\<open>ok | alreadyApplied | validationError(detail) | conflict(detail)\<close>.
\<close>

datatype MutationResult = ok | alreadyApplied | validationError string | conflict string

text \<open>
  Modelled from the spec: what the server keeps for one document, which the missing push
  endpoint reads and writes: the document state, its single version counter, and the
  mutation ids recorded as applied for each client.
\<close>

record 'd ServerDocument =
  document :: 'd
  version :: nat
  applied :: "(string \<times> nat) set"

text \<open>
  Modelled from the spec: the missing push endpoint's treatment of one mutation. An id
  already recorded as applied for the client is skipped and reported \<open>alreadyApplied\<close>.
  Otherwise the dispatcher (\<open>dispatch\<close>, returning the new state or a validation error's
  detail) applies it; a success advances the version and records the id; a mutation whose
  precondition fails (\<open>stale\<close> gives the detail) is still applied and reported \<open>conflict\<close>.
\<close>

definition push_mutation ::
  "('d \<Rightarrow> string \<Rightarrow> json \<Rightarrow> string + 'd) \<Rightarrow> ('d \<Rightarrow> Mutation \<Rightarrow> string option) \<Rightarrow>
   string \<Rightarrow> 'd ServerDocument \<Rightarrow> Mutation \<Rightarrow> MutationResult \<times> 'd ServerDocument" where
  "push_mutation dispatch stale clientId s m =
     (if (clientId, m_id m) \<in> applied s then (alreadyApplied, s)
      else
        (case dispatch (document s) (m_name m) (m_args m) of
           Inl detail \<Rightarrow> (validationError detail, s)
         | Inr d \<Rightarrow>
             ((case stale (document s) m of None \<Rightarrow> ok | Some detail \<Rightarrow> conflict detail),
              s\<lparr>document := d, version := Suc (version s),
                applied := insert (clientId, m_id m) (applied s)\<rparr>)))"

text \<open>
  Modelled from the spec: the missing push endpoint's loop over a batch, strictly in
  submission order; one mutation's failure does not undo the earlier ones.
\<close>

fun push_mutations ::
  "('d \<Rightarrow> string \<Rightarrow> json \<Rightarrow> string + 'd) \<Rightarrow> ('d \<Rightarrow> Mutation \<Rightarrow> string option) \<Rightarrow>
   string \<Rightarrow> 'd ServerDocument \<Rightarrow> Mutation list \<Rightarrow>
   (nat \<times> MutationResult) list \<times> 'd ServerDocument" where
  "push_mutations dispatch stale clientId s [] = ([], s)"
| "push_mutations dispatch stale clientId s (m # ms) =
     (case push_mutation dispatch stale clientId s m of
        (r, s1) \<Rightarrow>
          (case push_mutations dispatch stale clientId s1 ms of
             (infos, s2) \<Rightarrow> ((m_id m, r) # infos, s2)))"

text \<open>
  Modelled from the spec: the missing push endpoint's request
  \<^verbatim>\<open>{clientId, mutations, lastMutationId}\<close> and response \<^verbatim>\<open>{mutationInfos, newVersion}\<close>.
\<close>

record PushRequest =
  req_clientId :: string
  req_mutations :: "Mutation list"
  req_lastMutationId :: nat

record PushResponse =
  mutationInfos :: "(nat \<times> MutationResult) list"
  newVersion :: nat

definition push ::
  "('d \<Rightarrow> string \<Rightarrow> json \<Rightarrow> string + 'd) \<Rightarrow> ('d \<Rightarrow> Mutation \<Rightarrow> string option) \<Rightarrow>
   PushRequest \<Rightarrow> 'd ServerDocument \<Rightarrow> PushResponse \<times> 'd ServerDocument" where
  "push dispatch stale req s =
     (case push_mutations dispatch stale (req_clientId req) s (req_mutations req) of
        (infos, s1) \<Rightarrow> (\<lparr>mutationInfos = infos, newVersion = version s1\<rparr>, s1))"

section \<open>Concrete stores, sessions and requests\<close>

text \<open>
  A store with two projects of organization 7 and one of organization 1, in the shape of
  the mock rows of the resolvers' tests.
\<close>

definition example_id :: string where
  "example_id = ''123e4567-e89b-12d3-a456-426614174000''"

definition example_project :: PlanningProject where
  "example_project =
     \<lparr>pid = example_id, name = ''Bike Plan'', description = ''Downtown bike infrastructure'',
      ptype = BIKE_PLAN, status = IN_PROGRESS, organizationId = 7, createdById = Some 1,
      config = None, conversationHistory = None, createdAt = 5, updatedAt = 9\<rparr>"

definition example_draft :: PlanningProject where
  "example_draft =
     \<lparr>pid = ''123e4567-e89b-12d3-a456-426614174001'', name = ''Comprehensive Plan'',
      description = ''City-wide planning'', ptype = COMPREHENSIVE_PLAN, status = DRAFT,
      organizationId = 7, createdById = Some 1, config = None, conversationHistory = None,
      createdAt = 6, updatedAt = 12\<rparr>"

definition example_other :: PlanningProject where
  "example_other =
     \<lparr>pid = ''123e4567-e89b-12d3-a456-426614174002'', name = ''Road Diet'', description = [],
      ptype = ROAD_DIET_ANALYSIS, status = DRAFT, organizationId = 1, createdById = None,
      config = None, conversationHistory = None, createdAt = 7, updatedAt = 10\<rparr>"

definition example_user :: User where
  "example_user = \<lparr>user_id = 1, user_name = ''John Doe'', user_email = ''john@example.com''\<rparr>"

definition example_db :: Store where
  "example_db =
     \<lparr>organization = [1, 7], user = [example_user], wrappedFeatureCollection = [],
      planningProject = [example_project, example_draft, example_other],
      planningProjectMap = [], calls = []\<rparr>"

text \<open>An authenticated session of user 1 with the given \<^verbatim>\<open>orgId\<close>.\<close>

definition example_ctx :: "int option \<Rightarrow> Session" where
  "example_ctx out = \<lparr>userId = Some 1, orgId = out, authorize_ok = True\<rparr>"

text \<open>The row a create with no name, description or type gives in organization 7.\<close>

definition example_created :: PlanningProject where
  "example_created =
     \<lparr>pid = ''123e4567-e89b-12d3-a456-426614174003'', name = ''Untitled Planning Project'',
      description = [], ptype = CUSTOM, status = DRAFT, organizationId = 7,
      createdById = Some 1, config = None, conversationHistory = None,
      createdAt = 11, updatedAt = 11\<rparr>"

definition example_renamed :: PlanningProject where
  "example_renamed = example_project\<lparr>name := ''Renamed'', updatedAt := 11\<rparr>"

text \<open>A dispatcher with one mutator, and a server document that has applied one mutation.\<close>

definition example_dispatch :: "json list \<Rightarrow> string \<Rightarrow> json \<Rightarrow> string + json list" where
  "example_dispatch d nm args =
     (if nm = ''createFeature'' then Inr (d @ [args]) else Inl ''unknown mutation'')"

definition example_mutation :: Mutation where
  "example_mutation =
     \<lparr>m_id = 1, m_name = ''createFeature'', m_args = JStr ''F1'', m_clientId = ''client-a'',
      m_timestamp = 100\<rparr>"

definition example_server :: "json list ServerDocument" where
  "example_server = \<lparr>document = [JStr ''F1''], version = 1, applied = {(''client-a'', 1)}\<rparr>"

section \<open>The resolver pipeline\<close>

lemma resolver_pipe_reject:
  "schema raw = None \<Longrightarrow> resolver_pipe schema body raw ctx db = (Inl ZodError, db)"
  by (simp add: resolver_pipe_def resolver_zod_def)

lemma resolver_pipe_unauthorized:
  "schema raw = Some i \<Longrightarrow> \<not> authorize_ok ctx \<Longrightarrow>
   resolver_pipe schema body raw ctx db = (Inl AuthenticationError, db)"
  by (simp add: resolver_pipe_def resolver_zod_def resolver_authorize_def)

lemma resolver_pipe_accept:
  "schema raw = Some i \<Longrightarrow> authorize_ok ctx \<Longrightarrow>
   resolver_pipe schema body raw ctx db = body i ctx db"
  by (simp add: resolver_pipe_def resolver_zod_def resolver_authorize_def)

text \<open>A pipeline that returns a value has passed the schema and the authorization.\<close>

lemma resolver_pipe_Inr:
  assumes "resolver_pipe schema body raw ctx db = (Inr r, db')"
  obtains i where "schema raw = Some i" and "authorize_ok ctx"
    and "body i ctx db = (Inr r, db')"
  using assms
  by (auto simp: resolver_pipe_def resolver_zod_def resolver_authorize_def
      split: option.splits if_splits)

lemma findFirst_by_id:
  "findFirst \<lparr>where_id = Some i, where_organizationId = None, where_status = None\<rparr> db
     = (find (\<lambda>p. pid p = i) (planningProject db), log_call FindFirst db)"
  by (simp add: findFirst_def matches_def [abs_def])

subsection \<open>The concrete inputs\<close>

lemma example_id_uuid: "is_uuid example_id"
  by (simp add: example_id_def is_uuid_def is_hex_def)

lemma example_rows [simp]:
  "planningProject example_db = [example_project, example_draft, example_other]"
  "calls example_db = []"
  by (simp_all add: example_db_def)

lemma example_ctx_simps [simp]:
  "authorize_ok (example_ctx out)"
  "orgId (example_ctx out) = out"
  "userId (example_ctx out) = Some 1"
  by (simp_all add: example_ctx_def)

lemma example_find:
  "find (\<lambda>q. pid q = example_id) (planningProject example_db) = Some example_project"
  by (simp add: example_project_def)

lemma example_update_parses:
  "UpdatePlanningProjectSchema (JObj [(''id'', JStr example_id), (''name'', JStr ''Renamed'')])
     = Some (example_id,
             \<lparr>d_name = Some ''Renamed'', d_description = None, d_type = None,
              d_status = None, d_config = None, d_conversationHistory = None\<rparr>)"
  by (simp add: UpdatePlanningProjectSchema_def z_string_uuid_def example_id_uuid
      z_any_optional_def)

lemma example_delete_parses:
  "DeletePlanningProjectSchema (JObj [(''id'', JStr example_id)]) = Some example_id"
  by (simp add: DeletePlanningProjectSchema_def z_string_uuid_def example_id_uuid)

lemma example_get_parses:
  "GetPlanningProjectSchema (JObj [(''id'', JStr example_id)]) = Some example_id"
  by (simp add: GetPlanningProjectSchema_def z_string_uuid_def example_id_uuid)

lemma example_list_parses:
  "GetPlanningProjectsSchema (JObj []) = Some None"
  "GetPlanningProjectsSchema (JObj [(''status'', JStr ''DRAFT'')]) = Some (Some DRAFT)"
  by (simp_all add: GetPlanningProjectsSchema_def PlanningProjectStatus_of_def)

lemma example_create_parses:
  "CreatePlanningProjectSchema (JObj [(''status'', JStr ''ARCHIVED''), (''name'', JStr [])])
     = Some \<lparr>c_name = Some [], c_description = None, c_type = None\<rparr>"
  by (simp add: CreatePlanningProjectSchema_def)

section \<open>Writes to another organization's project\<close>

text \<open>
  C1. An authorized call of updatePlanningProject or deletePlanningProject whose input
  passes the schema, on the id of a stored project whose \<^verbatim>\<open>organizationId\<close> is not the
  session's \<^verbatim>\<open>orgId\<close> (a session without \<^verbatim>\<open>orgId\<close> included), throws
  "Not authorized to update this project" or "Not authorized to delete this project".
  The store it leaves is the store it found with one more logged call, the read by id:
  no write has been made and every table, the project's row among them, is as before.
\<close>

theorem foreign_project_write_rejected:
  assumes "authorize_ok ctx"
    and "find (\<lambda>p. pid p = i) (planningProject db) = Some project"
    and "Some (organizationId project) \<noteq> orgId ctx"
  shows "(UpdatePlanningProjectSchema raw = Some (i, data) \<longrightarrow>
            updatePlanningProject now raw ctx db =
              (Inl (Error ''Not authorized to update this project''),
               db\<lparr>calls := calls db @ [FindFirst]\<rparr>)) \<and>
         (DeletePlanningProjectSchema raw = Some i \<longrightarrow>
            deletePlanningProject raw ctx db =
              (Inl (Error ''Not authorized to delete this project''),
               db\<lparr>calls := calls db @ [FindFirst]\<rparr>))"
  using assms
  by (simp add: updatePlanningProject_def deletePlanningProject_def resolver_pipe_accept
      updatePlanningProject_resolver_def deletePlanningProject_resolver_def findFirst_by_id
      log_call_def)

theorem foreign_project_write_rejected_witness:
  "updatePlanningProject 11 (JObj [(''id'', JStr example_id), (''name'', JStr ''Renamed'')])
     (example_ctx (Some 1)) example_db
     = (Inl (Error ''Not authorized to update this project''),
        example_db\<lparr>calls := [FindFirst]\<rparr>) \<and>
   deletePlanningProject (JObj [(''id'', JStr example_id)]) (example_ctx (Some 1)) example_db
     = (Inl (Error ''Not authorized to delete this project''),
        example_db\<lparr>calls := [FindFirst]\<rparr>)"
proof -
  have a: "authorize_ok (example_ctx (Some 1))"
    by simp
  have o: "Some (organizationId example_project) \<noteq> orgId (example_ctx (Some 1))"
    by (simp add: example_project_def)
  show ?thesis
    using foreign_project_write_rejected [OF a example_find o, of
        "JObj [(''id'', JStr example_id), (''name'', JStr ''Renamed'')]" _ 11]
      foreign_project_write_rejected [OF a example_find o, of "JObj [(''id'', JStr example_id)]"]
      example_update_parses example_delete_parses
    by simp
qed

section \<open>Inputs that fail the schema\<close>

lemma not_uuid_rejected:
  assumes "map_of kvs ''id'' = Some (JStr s)" and "\<not> is_uuid s"
  shows "UpdatePlanningProjectSchema (JObj kvs) = None"
    and "DeletePlanningProjectSchema (JObj kvs) = None"
    and "GetPlanningProjectSchema (JObj kvs) = None"
  using assms
  by (simp_all add: UpdatePlanningProjectSchema_def DeletePlanningProjectSchema_def
      GetPlanningProjectSchema_def z_string_uuid_def)

lemma type_outside_enum_rejected:
  assumes "map_of kvs ''type'' = Some (JStr s)" and "PlanningProjectType_of s = None"
  shows "CreatePlanningProjectSchema (JObj kvs) = None"
  using assms
  by (cases "z_string_optional (map_of kvs ''name'')";
      cases "z_string_optional (map_of kvs ''description'')")
     (simp_all add: CreatePlanningProjectSchema_def)

text \<open>
  C2. When the schema of a resolver rejects the input, the resolver throws the
  validation error and returns the store exactly as it was: no row has changed and no
  call on the database has been logged, not even a read. This holds for the three
  mutations and the two queries, whatever the session.
\<close>

theorem invalid_input_rejected_atomically:
  "(UpdatePlanningProjectSchema raw = None \<longrightarrow>
      updatePlanningProject now raw ctx db = (Inl ZodError, db)) \<and>
   (DeletePlanningProjectSchema raw = None \<longrightarrow>
      deletePlanningProject raw ctx db = (Inl ZodError, db)) \<and>
   (GetPlanningProjectSchema raw = None \<longrightarrow>
      getPlanningProject raw ctx db = (Inl ZodError, db)) \<and>
   (CreatePlanningProjectSchema raw = None \<longrightarrow>
      createPlanningProject newId now raw ctx db = (Inl ZodError, db)) \<and>
   (GetPlanningProjectsSchema raw = None \<longrightarrow>
      getPlanningProjects raw ctx db = (Inl ZodError, db))"
  by (simp add: updatePlanningProject_def deletePlanningProject_def getPlanningProject_def
      createPlanningProject_def getPlanningProjects_def resolver_pipe_reject)

theorem invalid_input_rejected_atomically_witness:
  "updatePlanningProject 11 (JObj [(''id'', JStr ''project-1''), (''name'', JStr ''x'')])
     (example_ctx (Some 7)) example_db = (Inl ZodError, example_db) \<and>
   deletePlanningProject (JObj [(''id'', JStr ''project-1'')]) (example_ctx (Some 7)) example_db
     = (Inl ZodError, example_db) \<and>
   getPlanningProject (JObj [(''id'', JStr ''project-1'')]) (example_ctx (Some 7)) example_db
     = (Inl ZodError, example_db) \<and>
   createPlanningProject ''123e4567-e89b-12d3-a456-426614174003'' 11
     (JObj [(''type'', JStr ''HIGHWAY_PLAN'')]) (example_ctx (Some 7)) example_db
     = (Inl ZodError, example_db) \<and>
   getPlanningProjects (JObj [(''status'', JStr ''DONE'')]) (example_ctx (Some 7)) example_db
     = (Inl ZodError, example_db)"
proof -
  have n: "\<not> is_uuid ''project-1''"
    by (simp add: is_uuid_def)
  have u: "UpdatePlanningProjectSchema
             (JObj [(''id'', JStr ''project-1''), (''name'', JStr ''x'')]) = None"
    by (rule not_uuid_rejected(1) [OF _ n]) simp
  have d: "DeletePlanningProjectSchema (JObj [(''id'', JStr ''project-1'')]) = None"
    by (rule not_uuid_rejected(2) [OF _ n]) simp
  have g: "GetPlanningProjectSchema (JObj [(''id'', JStr ''project-1'')]) = None"
    by (rule not_uuid_rejected(3) [OF _ n]) simp
  have c: "CreatePlanningProjectSchema (JObj [(''type'', JStr ''HIGHWAY_PLAN'')]) = None"
    by (rule type_outside_enum_rejected [where s = "''HIGHWAY_PLAN''"])
       (simp_all add: PlanningProjectType_of_def)
  have l: "GetPlanningProjectsSchema (JObj [(''status'', JStr ''DONE'')]) = None"
    by (simp add: GetPlanningProjectsSchema_def PlanningProjectStatus_of_def)
  show ?thesis
    using invalid_input_rejected_atomically
        [of "JObj [(''id'', JStr ''project-1''), (''name'', JStr ''x'')]" 11
            "example_ctx (Some 7)" example_db]
      invalid_input_rejected_atomically
        [of "JObj [(''id'', JStr ''project-1'')]" _ "example_ctx (Some 7)" example_db]
      invalid_input_rejected_atomically
        [of "JObj [(''type'', JStr ''HIGHWAY_PLAN'')]" 11 "example_ctx (Some 7)" example_db
            "''123e4567-e89b-12d3-a456-426614174003''"]
      invalid_input_rejected_atomically
        [of "JObj [(''status'', JStr ''DONE'')]" _ "example_ctx (Some 7)" example_db]
      u d g c l
    by simp
qed

subsection \<open>Failure is atomic\<close>

text \<open>A mutation that throws has written nothing, whatever it threw.\<close>

lemma updatePlanningProject_error_no_write:
  assumes "updatePlanningProject now raw ctx db = (Inl e, db')"
  shows "planningProject db' = planningProject db \<and>
         planningProjectMap db' = planningProjectMap db"
  using assms
  by (auto simp: updatePlanningProject_def resolver_pipe_def resolver_zod_def
      resolver_authorize_def updatePlanningProject_resolver_def findFirst_by_id update_def
      log_call_def Let_def split: option.splits sum.splits if_splits prod.splits)

lemma deletePlanningProject_error_no_write:
  assumes "deletePlanningProject raw ctx db = (Inl e, db')"
  shows "planningProject db' = planningProject db \<and>
         planningProjectMap db' = planningProjectMap db"
  using assms
  by (auto simp: deletePlanningProject_def resolver_pipe_def resolver_zod_def
      resolver_authorize_def deletePlanningProject_resolver_def findFirst_by_id delete_def
      log_call_def Let_def split: option.splits sum.splits if_splits prod.splits)

section \<open>Listing the projects of an organization\<close>

lemma matches_organization:
  "matches \<lparr>where_id = None, where_organizationId = Some out, where_status = st\<rparr> p \<longleftrightarrow>
     organizationId p = out \<and> (st = None \<or> st = Some (status p))"
  by (auto simp: matches_def split: option.splits)

text \<open>
  With an \<^verbatim>\<open>orgId\<close> that is not falsy the resolver makes one \<^verbatim>\<open>findMany\<close> and returns its
  rows, each with its creator and its count of linked maps.
\<close>

lemma getPlanningProjects_resolver_rows:
  assumes "orgId ctx = Some out" and "out \<noteq> 0"
  shows "\<exists>rows.
           getPlanningProjects_resolver st ctx db
             = (Inr rows, db\<lparr>calls := calls db @ [FindMany]\<rparr>) \<and>
           map summary_project rows =
             rev (sort_key updatedAt
                    (filter (matches \<lparr>where_id = None, where_organizationId = Some out,
                                      where_status = st\<rparr>) (planningProject db)))"
  using assms
  by (simp add: getPlanningProjects_resolver_def findMany_def log_call_def comp_def)

lemma getPlanningProjects_Inr:
  assumes "getPlanningProjects raw ctx db = (Inr rows, db')"
  obtains st out where "GetPlanningProjectsSchema raw = Some st" and "orgId ctx = Some out"
    and "out \<noteq> 0"
    and "map summary_project rows =
           rev (sort_key updatedAt
                  (filter (matches \<lparr>where_id = None, where_organizationId = Some out,
                                    where_status = st\<rparr>) (planningProject db)))"
proof -
  from assms obtain st where s: "GetPlanningProjectsSchema raw = Some st"
    and b: "getPlanningProjects_resolver st ctx db = (Inr rows, db')"
    unfolding getPlanningProjects_def by (rule resolver_pipe_Inr)
  from b obtain out where o: "orgId ctx = Some out" "out \<noteq> 0"
    by (auto simp: getPlanningProjects_resolver_def split: option.splits if_splits)
  from getPlanningProjects_resolver_rows [OF o, of st db] b
  have "map summary_project rows =
          rev (sort_key updatedAt
                 (filter (matches \<lparr>where_id = None, where_organizationId = Some out,
                                   where_status = st\<rparr>) (planningProject db)))"
    by auto
  with s o that show thesis by blast
qed

text \<open>The guard \<^verbatim>\<open>!ctx.session.orgId\<close> also takes an \<^verbatim>\<open>orgId\<close> of 0 for a missing one.\<close>

lemma getPlanningProjects_orgId_zero:
  assumes "authorize_ok ctx" and "GetPlanningProjectsSchema raw = Some st"
    and "orgId ctx = Some 0"
  shows "getPlanningProjects raw ctx db = (Inl (Error ''No organization found''), db)"
  using assms
  by (simp add: getPlanningProjects_def resolver_pipe_accept getPlanningProjects_resolver_def)

lemma example_summary_all:
  "getPlanningProjects (JObj []) (example_ctx (Some 7)) example_db
     = (Inr [\<lparr>summary_project = example_draft, summary_createdBy = Some example_user,
               summary_count_linkedMaps = 0\<rparr>,
             \<lparr>summary_project = example_project, summary_createdBy = Some example_user,
               summary_count_linkedMaps = 0\<rparr>], example_db\<lparr>calls := [FindMany]\<rparr>)"
  by (simp add: getPlanningProjects_def resolver_pipe_accept example_list_parses
      getPlanningProjects_resolver_def findMany_def matches_def log_call_def createdBy_def
      linkedMaps_def example_db_def example_project_def example_draft_def example_other_def
      example_user_def)

lemma example_summary_draft:
  "getPlanningProjects (JObj [(''status'', JStr ''DRAFT'')]) (example_ctx (Some 7)) example_db
     = (Inr [\<lparr>summary_project = example_draft, summary_createdBy = Some example_user,
               summary_count_linkedMaps = 0\<rparr>], example_db\<lparr>calls := [FindMany]\<rparr>)"
  by (simp add: getPlanningProjects_def resolver_pipe_accept example_list_parses
      getPlanningProjects_resolver_def findMany_def matches_def log_call_def createdBy_def
      linkedMaps_def example_db_def example_project_def example_draft_def example_other_def
      example_user_def)

text \<open>
  C3. For an authorized session and an input the schema accepts: when the session has an
  \<^verbatim>\<open>orgId\<close> (organization ids are generated by the database and are not 0),
  getPlanningProjects returns, as a multiset, exactly the stored projects whose
  \<^verbatim>\<open>organizationId\<close> is that \<^verbatim>\<open>orgId\<close> and whose status passes the optional filter, so
  with no filter exactly the organization's projects and never a project of another
  organization; when the session has no \<^verbatim>\<open>orgId\<close>, getPlanningProjects and
  createPlanningProject both throw "No organization found" and leave the store untouched.
\<close>

theorem getPlanningProjects_own_organization_only:
  assumes "authorize_ok ctx"
  shows "(GetPlanningProjectsSchema raw = Some st \<and> orgId ctx = Some out \<and> out \<noteq> 0 \<longrightarrow>
            (\<exists>rows.
               getPlanningProjects raw ctx db
                 = (Inr rows, db\<lparr>calls := calls db @ [FindMany]\<rparr>) \<and>
               mset (map summary_project rows) =
                 filter_mset (\<lambda>p. organizationId p = out \<and> (st = None \<or> st = Some (status p)))
                   (mset (planningProject db)))) \<and>
         (GetPlanningProjectsSchema raw = Some st \<and> orgId ctx = None \<longrightarrow>
            getPlanningProjects raw ctx db = (Inl (Error ''No organization found''), db)) \<and>
         (CreatePlanningProjectSchema raw = Some input \<and> orgId ctx = None \<longrightarrow>
            createPlanningProject newId now raw ctx db
              = (Inl (Error ''No organization found''), db))"
proof (intro conjI impI)
  assume h: "GetPlanningProjectsSchema raw = Some st \<and> orgId ctx = Some out \<and> out \<noteq> 0"
  then obtain rows where
    r: "getPlanningProjects_resolver st ctx db
          = (Inr rows, db\<lparr>calls := calls db @ [FindMany]\<rparr>)"
    and m: "map summary_project rows =
              rev (sort_key updatedAt
                     (filter (matches \<lparr>where_id = None, where_organizationId = Some out,
                                       where_status = st\<rparr>) (planningProject db)))"
    using getPlanningProjects_resolver_rows by blast
  have "getPlanningProjects raw ctx db = (Inr rows, db\<lparr>calls := calls db @ [FindMany]\<rparr>)"
    using h r assms by (simp add: getPlanningProjects_def resolver_pipe_accept)
  moreover have "mset (map summary_project rows) =
      filter_mset (\<lambda>p. organizationId p = out \<and> (st = None \<or> st = Some (status p)))
        (mset (planningProject db))"
    unfolding m by (simp add: matches_organization)
  ultimately show "\<exists>rows.
      getPlanningProjects raw ctx db = (Inr rows, db\<lparr>calls := calls db @ [FindMany]\<rparr>) \<and>
      mset (map summary_project rows) =
        filter_mset (\<lambda>p. organizationId p = out \<and> (st = None \<or> st = Some (status p)))
          (mset (planningProject db))"
    by blast
next
  assume "GetPlanningProjectsSchema raw = Some st \<and> orgId ctx = None"
  then show "getPlanningProjects raw ctx db = (Inl (Error ''No organization found''), db)"
    using assms
    by (simp add: getPlanningProjects_def resolver_pipe_accept getPlanningProjects_resolver_def)
next
  assume "CreatePlanningProjectSchema raw = Some input \<and> orgId ctx = None"
  then show "createPlanningProject newId now raw ctx db
               = (Inl (Error ''No organization found''), db)"
    using assms
    by (simp add: createPlanningProject_def resolver_pipe_accept
        createPlanningProject_resolver_def)
qed

theorem getPlanningProjects_own_organization_only_witness:
  "(\<exists>rows. getPlanningProjects (JObj []) (example_ctx (Some 7)) example_db
             = (Inr rows, example_db\<lparr>calls := [FindMany]\<rparr>) \<and>
           mset (map summary_project rows) = {#example_project, example_draft#}) \<and>
   getPlanningProjects (JObj []) (example_ctx None) example_db
     = (Inl (Error ''No organization found''), example_db) \<and>
   createPlanningProject ''123e4567-e89b-12d3-a456-426614174003'' 11
     (JObj [(''status'', JStr ''ARCHIVED''), (''name'', JStr [])]) (example_ctx None) example_db
     = (Inl (Error ''No organization found''), example_db)"
proof -
  have f: "filter_mset (\<lambda>p. organizationId p = 7 \<and> (None = None \<or> None = Some (status p)))
             (mset (planningProject example_db)) = {#example_project, example_draft#}"
    by (simp add: example_project_def example_draft_def example_other_def)
  show ?thesis
    using getPlanningProjects_own_organization_only
        [of "example_ctx (Some 7)" "JObj []" None 7 example_db]
      getPlanningProjects_own_organization_only
        [of "example_ctx None" "JObj []" None _ example_db]
      getPlanningProjects_own_organization_only
        [of "example_ctx None" "JObj [(''status'', JStr ''ARCHIVED''), (''name'', JStr [])]"
            _ _ example_db "\<lparr>c_name = Some [], c_description = None, c_type = None\<rparr>"
            "''123e4567-e89b-12d3-a456-426614174003''" 11]
      example_list_parses example_create_parses f
    by simp
qed

text \<open>
  C7. Whenever getPlanningProjects returns a list, the list is in descending order of
  \<^verbatim>\<open>updatedAt\<close>; when the input carries a status, every returned project has that
  status; when it carries none, the returned projects are all the stored projects of the
  session's organization, whatever their status.
\<close>

theorem getPlanningProjects_sorted_and_filtered:
  assumes "getPlanningProjects raw ctx db = (Inr rows, db')"
  shows "sorted_wrt (\<lambda>a b. updatedAt (summary_project b) \<le> updatedAt (summary_project a)) rows \<and>
         (\<forall>st. GetPlanningProjectsSchema raw = Some (Some st) \<longrightarrow>
            (\<forall>r \<in> set rows. status (summary_project r) = st)) \<and>
         (GetPlanningProjectsSchema raw = Some None \<longrightarrow>
            set (map summary_project rows) =
              {p \<in> set (planningProject db). Some (organizationId p) = orgId ctx})"
proof -
  from assms obtain st out where s: "GetPlanningProjectsSchema raw = Some st"
    and o: "orgId ctx = Some out"
    and m: "map summary_project rows =
              rev (sort_key updatedAt
                     (filter (matches \<lparr>where_id = None, where_organizationId = Some out,
                                       where_status = st\<rparr>) (planningProject db)))"
    by (rule getPlanningProjects_Inr)
  have "sorted (map updatedAt
          (sort_key updatedAt
             (filter (matches \<lparr>where_id = None, where_organizationId = Some out,
                               where_status = st\<rparr>) (planningProject db))))"
    by (rule sorted_sort_key)
  then have "sorted_wrt (\<lambda>a b. updatedAt b \<le> updatedAt a) (map summary_project rows)"
    unfolding m by (simp add: sorted_wrt_rev sorted_wrt_map)
  then have ordered:
    "sorted_wrt (\<lambda>a b. updatedAt (summary_project b) \<le> updatedAt (summary_project a)) rows"
    by (simp add: sorted_wrt_map)
  have e: "set (map summary_project rows) =
             {p \<in> set (planningProject db).
                organizationId p = out \<and> (st = None \<or> st = Some (status p))}"
    unfolding m by (auto simp: matches_organization)
  have filtered: "\<forall>t. GetPlanningProjectsSchema raw = Some (Some t) \<longrightarrow>
                    (\<forall>r \<in> set rows. status (summary_project r) = t)"
  proof (intro allI impI ballI)
    fix t r
    assume "GetPlanningProjectsSchema raw = Some (Some t)" and "r \<in> set rows"
    then have "st = Some t" and "summary_project r \<in> set (map summary_project rows)"
      using s by auto
    then show "status (summary_project r) = t"
      unfolding e by simp
  qed
  have unfiltered: "GetPlanningProjectsSchema raw = Some None \<longrightarrow>
                      set (map summary_project rows) =
                        {p \<in> set (planningProject db). Some (organizationId p) = orgId ctx}"
    using s o e by auto
  from ordered filtered unfiltered show ?thesis by blast
qed

theorem getPlanningProjects_sorted_and_filtered_witness:
  "getPlanningProjects (JObj []) (example_ctx (Some 7)) example_db
     = (Inr [\<lparr>summary_project = example_draft, summary_createdBy = Some example_user,
               summary_count_linkedMaps = 0\<rparr>,
             \<lparr>summary_project = example_project, summary_createdBy = Some example_user,
               summary_count_linkedMaps = 0\<rparr>], example_db\<lparr>calls := [FindMany]\<rparr>) \<and>
   sorted_wrt (\<lambda>a b. updatedAt (summary_project b) \<le> updatedAt (summary_project a))
     [\<lparr>summary_project = example_draft, summary_createdBy = Some example_user,
        summary_count_linkedMaps = 0\<rparr>,
      \<lparr>summary_project = example_project, summary_createdBy = Some example_user,
        summary_count_linkedMaps = 0\<rparr>] \<and>
   {example_draft, example_project} =
     {p \<in> set (planningProject example_db). Some (organizationId p) = Some 7} \<and>
   getPlanningProjects (JObj [(''status'', JStr ''DRAFT'')]) (example_ctx (Some 7)) example_db
     = (Inr [\<lparr>summary_project = example_draft, summary_createdBy = Some example_user,
               summary_count_linkedMaps = 0\<rparr>], example_db\<lparr>calls := [FindMany]\<rparr>) \<and>
   status example_draft = DRAFT"
  using getPlanningProjects_sorted_and_filtered [OF example_summary_all]
    getPlanningProjects_sorted_and_filtered [OF example_summary_draft]
    example_list_parses example_summary_all example_summary_draft
  by simp

section \<open>Creating a project\<close>

lemma create_Inr:
  assumes "create newId now data db = (Inr p, db')"
  shows "p = \<lparr>pid = newId, name = cd_name data, description = cd_description data,
               ptype = cd_type data, status = cd_status data,
               organizationId = cd_organizationId data, createdById = cd_createdById data,
               config = None, conversationHistory = None,
               createdAt = now, updatedAt = now\<rparr>"
    and "planningProject db' = planningProject db @ [p]"
    and "calls db' = calls db @ [Create]"
  using assms
  by (auto simp: create_def Let_def log_call_def split: if_splits)

text \<open>
  The schema reads the keys \<^verbatim>\<open>name\<close>, \<^verbatim>\<open>description\<close> and \<^verbatim>\<open>type\<close> and no other: two
  inputs that agree on them, whatever \<^verbatim>\<open>status\<close> either carries, parse alike.
\<close>

lemma CreatePlanningProjectSchema_reads_three_keys:
  assumes "map_of kvs ''name'' = map_of kvs' ''name''"
    and "map_of kvs ''description'' = map_of kvs' ''description''"
    and "map_of kvs ''type'' = map_of kvs' ''type''"
  shows "CreatePlanningProjectSchema (JObj kvs) = CreatePlanningProjectSchema (JObj kvs')"
  using assms by (simp add: CreatePlanningProjectSchema_def)

lemma example_create:
  "createPlanningProject ''123e4567-e89b-12d3-a456-426614174003'' 11
     (JObj [(''status'', JStr ''ARCHIVED''), (''name'', JStr [])]) (example_ctx (Some 7)) example_db
     = (Inr example_created,
        example_db\<lparr>planningProject :=
                      [example_project, example_draft, example_other, example_created],
                    calls := [Create]\<rparr>)"
  by (simp add: createPlanningProject_def resolver_pipe_accept example_create_parses
      createPlanningProject_resolver_def create_def log_call_def or_string_def Let_def
      example_db_def example_project_def example_draft_def example_other_def
      example_user_def example_created_def example_id_def)

text \<open>
  C4. Whenever createPlanningProject returns a project, for the input as the schema
  parsed it: the status of the project is \<open>DRAFT\<close>, whatever the raw input held (a
  \<^verbatim>\<open>status\<close> key is not read); a name that is omitted or the empty string gives the name
  "Untitled Planning Project"; an omitted description gives the empty description; an
  omitted type gives \<open>CUSTOM\<close>; and the project is the one row added to the table.
\<close>

theorem createPlanningProject_defaults:
  assumes "createPlanningProject newId now raw ctx db = (Inr p, db')"
    and "CreatePlanningProjectSchema raw = Some input"
  shows "status p = DRAFT \<and>
         (c_name input = None \<or> c_name input = Some [] \<longrightarrow>
            name p = ''Untitled Planning Project'') \<and>
         (c_description input = None \<longrightarrow> description p = []) \<and>
         (c_type input = None \<longrightarrow> ptype p = CUSTOM) \<and>
         planningProject db' = planningProject db @ [p]"
proof -
  from assms(1) obtain i where i: "CreatePlanningProjectSchema raw = Some i"
    and b: "createPlanningProject_resolver newId now i ctx db = (Inr p, db')"
    unfolding createPlanningProject_def by (rule resolver_pipe_Inr)
  from i assms(2) have [simp]: "i = input" by simp
  from b obtain out where c: "create newId now
         \<lparr>cd_name = or_string (c_name input) ''Untitled Planning Project'',
          cd_description = or_string (c_description input) [],
          cd_type = (case c_type input of None \<Rightarrow> CUSTOM | Some t \<Rightarrow> t),
          cd_status = DRAFT, cd_organizationId = out, cd_createdById = userId ctx\<rparr> db
         = (Inr p, db')"
    by (auto simp: createPlanningProject_resolver_def split: option.splits if_splits)
  from create_Inr(1) [OF c] have
    "status p = DRAFT"
    "name p = or_string (c_name input) ''Untitled Planning Project''"
    "description p = or_string (c_description input) []"
    "ptype p = (case c_type input of None \<Rightarrow> CUSTOM | Some t \<Rightarrow> t)"
    by simp_all
  moreover note create_Inr(2) [OF c]
  ultimately show ?thesis
    by (auto simp: or_string_def)
qed

theorem createPlanningProject_defaults_witness:
  "createPlanningProject ''123e4567-e89b-12d3-a456-426614174003'' 11
     (JObj [(''status'', JStr ''ARCHIVED''), (''name'', JStr [])]) (example_ctx (Some 7)) example_db
     = (Inr example_created,
        example_db\<lparr>planningProject :=
                      [example_project, example_draft, example_other, example_created],
                    calls := [Create]\<rparr>) \<and>
   status example_created = DRAFT \<and>
   name example_created = ''Untitled Planning Project'' \<and>
   description example_created = [] \<and>
   ptype example_created = CUSTOM"
  using createPlanningProject_defaults [OF example_create example_create_parses] example_create
  by simp

section \<open>Updating a project\<close>

lemma update_Inr:
  assumes "update i data now db = (Inr p', db')"
  shows "\<exists>p. find (\<lambda>q. pid q = i) (planningProject db) = Some p \<and> p' = apply_data data now p"
    and "planningProject db' =
           map (\<lambda>q. if pid q = i then apply_data data now q else q) (planningProject db)"
    and "calls db' = calls db @ [Update]"
  using assms
  by (auto simp: update_def Let_def log_call_def split: option.splits)

lemma pid_apply_data [simp]: "pid (apply_data data now p) = pid p"
  by (simp add: apply_data_def)

lemma find_map_updated:
  "find (\<lambda>q. pid q = i) xs = Some p \<Longrightarrow>
   find (\<lambda>q. pid q = i) (map (\<lambda>q. if pid q = i then apply_data data now q else q) xs)
     = Some (apply_data data now p)"
  by (induction xs) (auto split: if_splits)

lemma filter_map_others:
  "filter (\<lambda>q. pid q \<noteq> i) (map (\<lambda>q. if pid q = i then apply_data data now q else q) xs)
     = filter (\<lambda>q. pid q \<noteq> i) xs"
  by (induction xs) auto

lemma example_update:
  "updatePlanningProject 11 (JObj [(''id'', JStr example_id), (''name'', JStr ''Renamed'')])
     (example_ctx (Some 7)) example_db
     = (Inr example_renamed,
        example_db\<lparr>planningProject := [example_renamed, example_draft, example_other],
                    calls := [FindFirst, Update]\<rparr>)"
proof -
  have "updatePlanningProject 11 (JObj [(''id'', JStr example_id), (''name'', JStr ''Renamed'')])
          (example_ctx (Some 7)) example_db
        = updatePlanningProject_resolver 11
            (example_id, \<lparr>d_name = Some ''Renamed'', d_description = None, d_type = None,
               d_status = None, d_config = None, d_conversationHistory = None\<rparr>)
            (example_ctx (Some 7)) example_db"
    by (simp add: updatePlanningProject_def resolver_pipe_accept example_update_parses)
  also have "\<dots> = (Inr example_renamed,
        example_db\<lparr>planningProject := [example_renamed, example_draft, example_other],
                    calls := [FindFirst, Update]\<rparr>)"
    by (simp add: updatePlanningProject_resolver_def findFirst_by_id update_def log_call_def
        Let_def apply_data_def example_db_def example_project_def example_draft_def
        example_other_def example_renamed_def example_id_def)
  finally show ?thesis .
qed

text \<open>
  C6. Whenever updatePlanningProject returns a project, with \<open>p\<close> the row stored under
  the id before the call: each of name, description, type, status, config and
  conversationHistory that the input leaves out has in the returned project the value it
  had in \<open>p\<close>, and each that the input gives has the given value, all six at once; the
  returned project is the row stored under the id afterwards; the rows of other ids are
  as before; and the call has made one read and one \<^verbatim>\<open>update\<close>, nothing else.
\<close>

theorem updatePlanningProject_frame:
  assumes "updatePlanningProject now raw ctx db = (Inr p', db')"
    and "UpdatePlanningProjectSchema raw = Some (i, data)"
    and "find (\<lambda>q. pid q = i) (planningProject db) = Some p"
  shows "(d_name data = None \<longrightarrow> name p' = name p) \<and>
         (d_description data = None \<longrightarrow> description p' = description p) \<and>
         (d_type data = None \<longrightarrow> ptype p' = ptype p) \<and>
         (d_status data = None \<longrightarrow> status p' = status p) \<and>
         (d_config data = None \<longrightarrow> config p' = config p) \<and>
         (d_conversationHistory data = None \<longrightarrow>
            conversationHistory p' = conversationHistory p) \<and>
         (\<forall>v. d_name data = Some v \<longrightarrow> name p' = v) \<and>
         (\<forall>v. d_description data = Some v \<longrightarrow> description p' = v) \<and>
         (\<forall>v. d_type data = Some v \<longrightarrow> ptype p' = v) \<and>
         (\<forall>v. d_status data = Some v \<longrightarrow> status p' = v) \<and>
         (\<forall>v. d_config data = Some v \<longrightarrow> config p' = Some v) \<and>
         (\<forall>v. d_conversationHistory data = Some v \<longrightarrow> conversationHistory p' = Some v) \<and>
         find (\<lambda>q. pid q = i) (planningProject db') = Some p' \<and>
         filter (\<lambda>q. pid q \<noteq> i) (planningProject db')
           = filter (\<lambda>q. pid q \<noteq> i) (planningProject db) \<and>
         calls db' = calls db @ [FindFirst, Update]"
proof -
  from assms(1) obtain inp where "UpdatePlanningProjectSchema raw = Some inp"
    and b: "updatePlanningProject_resolver now inp ctx db = (Inr p', db')"
    unfolding updatePlanningProject_def by (rule resolver_pipe_Inr)
  with assms(2) have "inp = (i, data)" by simp
  with b assms(3) have u: "update i data now (log_call FindFirst db) = (Inr p', db')"
    by (auto simp: updatePlanningProject_resolver_def findFirst_by_id split: if_splits)
  have rows: "planningProject (log_call FindFirst db) = planningProject db"
    and log: "calls (log_call FindFirst db) = calls db @ [FindFirst]"
    by (simp_all add: log_call_def)
  from update_Inr(1) [OF u] assms(3) have p': "p' = apply_data data now p"
    by (simp add: rows)
  from update_Inr(2) [OF u] have st: "planningProject db' =
      map (\<lambda>q. if pid q = i then apply_data data now q else q) (planningProject db)"
    by (simp add: rows)
  have fields: "name p' = (case d_name data of None \<Rightarrow> name p | Some v \<Rightarrow> v)"
    "description p' = (case d_description data of None \<Rightarrow> description p | Some v \<Rightarrow> v)"
    "ptype p' = (case d_type data of None \<Rightarrow> ptype p | Some v \<Rightarrow> v)"
    "status p' = (case d_status data of None \<Rightarrow> status p | Some v \<Rightarrow> v)"
    "config p' = (case d_config data of None \<Rightarrow> config p | Some v \<Rightarrow> Some v)"
    "conversationHistory p' =
       (case d_conversationHistory data of None \<Rightarrow> conversationHistory p | Some v \<Rightarrow> Some v)"
    by (simp_all add: p' apply_data_def)
  have stored: "find (\<lambda>q. pid q = i) (planningProject db') = Some p'"
    unfolding st p' by (rule find_map_updated [OF assms(3)])
  have others: "filter (\<lambda>q. pid q \<noteq> i) (planningProject db') =
      filter (\<lambda>q. pid q \<noteq> i) (planningProject db)"
    unfolding st by (rule filter_map_others)
  have once: "calls db' = calls db @ [FindFirst, Update]"
    using update_Inr(3) [OF u] by (simp add: log)
  show ?thesis
    using fields stored others once by simp
qed

theorem updatePlanningProject_frame_witness:
  "updatePlanningProject 11 (JObj [(''id'', JStr example_id), (''name'', JStr ''Renamed'')])
     (example_ctx (Some 7)) example_db
     = (Inr example_renamed,
        example_db\<lparr>planningProject := [example_renamed, example_draft, example_other],
                    calls := [FindFirst, Update]\<rparr>) \<and>
   name example_renamed = ''Renamed'' \<and>
   description example_renamed = description example_project \<and>
   ptype example_renamed = ptype example_project \<and>
   status example_renamed = status example_project \<and>
   config example_renamed = config example_project \<and>
   conversationHistory example_renamed = conversationHistory example_project \<and>
   find (\<lambda>q. pid q = example_id) [example_renamed, example_draft, example_other]
     = Some example_renamed \<and>
   filter (\<lambda>q. pid q \<noteq> example_id) [example_renamed, example_draft, example_other]
     = filter (\<lambda>q. pid q \<noteq> example_id) (planningProject example_db)"
  using updatePlanningProject_frame [OF example_update example_update_parses example_find]
    example_update
  by simp

section \<open>Reading one project\<close>

text \<open>
  For a session that has an \<^verbatim>\<open>orgId\<close>, an id under which no project is stored and an id
  under which a project of another organization is stored give the same result: the error
  "Planning project not found" after one read.
\<close>

lemma getPlanningProject_foreign_as_missing:
  assumes "authorize_ok ctx" and "GetPlanningProjectSchema raw = Some i"
    and "orgId ctx = Some out"
    and "\<forall>p \<in> set (planningProject db). pid p = i \<longrightarrow> organizationId p \<noteq> out"
  shows "getPlanningProject raw ctx db =
           (Inl (Error ''Planning project not found''), db\<lparr>calls := calls db @ [FindFirst]\<rparr>)"
proof -
  have "find (matches \<lparr>where_id = Some i, where_organizationId = Some out,
                        where_status = None\<rparr>) (planningProject db) = None"
    using assms(4) by (auto simp: find_None_iff matches_def)
  then show ?thesis
    using assms(1-3)
    by (simp add: getPlanningProject_def resolver_pipe_accept getPlanningProject_resolver_def
        findFirst_def log_call_def)
qed

text \<open>deletePlanningProject tells the two cases apart, whatever the session's \<^verbatim>\<open>orgId\<close>.\<close>

lemma deletePlanningProject_missing:
  assumes "authorize_ok ctx" and "DeletePlanningProjectSchema raw = Some i"
    and "find (\<lambda>p. pid p = i) (planningProject db) = None"
  shows "deletePlanningProject raw ctx db =
           (Inl (Error ''Planning project not found''), db\<lparr>calls := calls db @ [FindFirst]\<rparr>)"
  using assms
  by (simp add: deletePlanningProject_def resolver_pipe_accept deletePlanningProject_resolver_def
      findFirst_by_id log_call_def)

text \<open>
  C5. getPlanningProject should answer "Planning project not found" for a project of
  another organization as it does for a missing one. For a session without \<^verbatim>\<open>orgId\<close>
  it does not: the \<^verbatim>\<open>where\<close> of its \<^verbatim>\<open>findFirst\<close> then has an undefined
  \<^verbatim>\<open>organizationId\<close>, which filters nothing, and the query returns the project of
  organization 7 with its creator and linked maps. On the same store, session and id
  deletePlanningProject answers "Not authorized to delete this project".
\<close>

theorem getPlanningProject_without_orgId_returns_foreign_project:
  "getPlanningProject (JObj [(''id'', JStr example_id)]) (example_ctx None) example_db
     = (Inr \<lparr>detail_project = example_project, detail_createdBy = Some example_user,
              detail_linkedMaps = []\<rparr>,
        example_db\<lparr>calls := [FindFirst]\<rparr>) \<and>
   organizationId example_project = 7 \<and>
   orgId (example_ctx None) = None \<and>
   deletePlanningProject (JObj [(''id'', JStr example_id)]) (example_ctx None) example_db
     = (Inl (Error ''Not authorized to delete this project''),
        example_db\<lparr>calls := [FindFirst]\<rparr>)"
  by (simp add: getPlanningProject_def deletePlanningProject_def resolver_pipe_accept
      example_get_parses example_delete_parses getPlanningProject_resolver_def
      deletePlanningProject_resolver_def findFirst_def matches_def log_call_def example_db_def
      example_project_def example_user_def createdBy_def linkedMaps_def)

section \<open>Deleting from the project list\<close>

text \<open>
  C8. \<^verbatim>\<open>handleDelete\<close> never throws: whatever the confirm dialog, the mutation and the
  invalidation give, it returns normally. After a confirmed dialog, a mutation that
  rejects with any error \<open>e\<close> leads to exactly the mutation call, a report of \<open>e\<close> to
  Sentry and the toast "Failed to delete planning project"; a mutation that resolves,
  followed by an invalidation that resolves, leads to the mutation call, the invalidation
  of the list query and the toast "Planning project deleted".
\<close>

theorem handleDelete_failure_is_caught:
  "fst (handleDelete i nm confirmed mutation invalidation tr) = Inr () \<and>
   (\<forall>e. confirmed \<and> mutation = Inl e \<longrightarrow>
      snd (handleDelete i nm confirmed mutation invalidation tr) =
        tr @ [Confirm (''Are you sure you want to delete '' @ [CHR 0x22] @ nm @ [CHR 0x22] @ ''?''),
              DeletePlanningProjectMutation i,
              SentryCaptureException e,
              ToastError ''Failed to delete planning project'']) \<and>
   (\<forall>r. confirmed \<and> mutation = Inr r \<and> invalidation = Inr () \<longrightarrow>
      snd (handleDelete i nm confirmed mutation invalidation tr) =
        tr @ [Confirm (''Are you sure you want to delete '' @ [CHR 0x22] @ nm @ [CHR 0x22] @ ''?''),
              DeletePlanningProjectMutation i,
              InvalidateQuery_getPlanningProjects,
              ToastSuccess ''Planning project deleted''])"
  by (cases mutation; cases invalidation; cases confirmed)
     (simp_all add: handleDelete_def andThen_def tryCatch_def call_def)

theorem handleDelete_failure_is_caught_witness:
  "handleDelete example_id ''Bike Plan'' True
     (Inl (Error ''Not authorized to delete this project'')) (Inr ()) []
     = (Inr (),
        [Confirm (''Are you sure you want to delete '' @ [CHR 0x22] @ ''Bike Plan'' @ [CHR 0x22] @ ''?''),
         DeletePlanningProjectMutation example_id,
         SentryCaptureException (Error ''Not authorized to delete this project''),
         ToastError ''Failed to delete planning project'']) \<and>
   handleDelete example_id ''Bike Plan'' True
     (Inr \<lparr>success = True\<rparr> :: error + DeleteResult) (Inr ()) []
     = (Inr (),
        [Confirm (''Are you sure you want to delete '' @ [CHR 0x22] @ ''Bike Plan'' @ [CHR 0x22] @ ''?''),
         DeletePlanningProjectMutation example_id,
         InvalidateQuery_getPlanningProjects,
         ToastSuccess ''Planning project deleted''])"
  using handleDelete_failure_is_caught [of example_id "''Bike Plan''" True
      "Inl (Error ''Not authorized to delete this project'')" "Inr ()" "[]"]
    handleDelete_failure_is_caught [of example_id "''Bike Plan''" True
      "Inr \<lparr>success = True\<rparr> :: error + DeleteResult" "Inr ()" "[]"]
  by (simp add: prod_eq_iff)

text \<open>
  Were the invalidation to reject after a delete that succeeded, the same catch would
  take it and show the error toast.
\<close>

lemma handleDelete_invalidation_fails:
  "handleDelete i nm True (Inr r) (Inl e) tr
     = (Inr (),
        tr @ [Confirm (''Are you sure you want to delete '' @ [CHR 0x22] @ nm @ [CHR 0x22] @ ''?''),
              DeletePlanningProjectMutation i,
              InvalidateQuery_getPlanningProjects,
              SentryCaptureException e,
              ToastError ''Failed to delete planning project''])"
  by (simp add: handleDelete_def andThen_def tryCatch_def call_def)

lemma handleDelete_declined:
  "handleDelete i nm False mutation invalidation tr
     = (Inr (),
        tr @ [Confirm (''Are you sure you want to delete '' @ [CHR 0x22] @ nm @ [CHR 0x22] @ ''?'')])"
  by (simp add: handleDelete_def andThen_def call_def)

section \<open>Resubmitting a mutation to the push endpoint\<close>

lemma push_mutation_recorded:
  "(clientId, m_id m) \<in> applied s \<Longrightarrow>
   push_mutation dispatch stale clientId s m = (alreadyApplied, s)"
  by (simp add: push_mutation_def)

lemma push_mutations_recorded:
  "\<forall>m \<in> set ms. (clientId, m_id m) \<in> applied s \<Longrightarrow>
   push_mutations dispatch stale clientId s ms = (map (\<lambda>m. (m_id m, alreadyApplied)) ms, s)"
  by (induction ms) (simp_all add: push_mutation_recorded)

text \<open>A mutation reported \<open>ok\<close> or \<open>conflict\<close> has been recorded, and records are kept.\<close>

lemma push_mutation_records:
  "push_mutation dispatch stale clientId s m = (r, s') \<Longrightarrow>
   r = ok \<or> (\<exists>d. r = conflict d) \<Longrightarrow> (clientId, m_id m) \<in> applied s'"
  by (auto simp: push_mutation_def split: if_splits sum.splits option.splits)

lemma push_mutation_applied_mono:
  "push_mutation dispatch stale clientId s m = (r, s') \<Longrightarrow> applied s \<subseteq> applied s'"
  by (auto simp: push_mutation_def split: if_splits sum.splits)

lemma push_mutation_again:
  assumes "push_mutation dispatch stale clientId s m = (r, s1)"
    and "r = ok \<or> (\<exists>d. r = conflict d)"
  shows "push_mutation dispatch stale clientId s1 m = (alreadyApplied, s1)"
  by (rule push_mutation_recorded) (rule push_mutation_records [OF assms])

lemma push_mutations_applied_mono:
  "push_mutations dispatch stale clientId s ms = (infos, s') \<Longrightarrow> applied s \<subseteq> applied s'"
proof (induction ms arbitrary: s infos s')
  case Nil
  then show ?case by simp
next
  case (Cons m ms)
  obtain r s1 where 1: "push_mutation dispatch stale clientId s m = (r, s1)"
    by (cases "push_mutation dispatch stale clientId s m")
  obtain is2 s2 where 2: "push_mutations dispatch stale clientId s1 ms = (is2, s2)"
    by (cases "push_mutations dispatch stale clientId s1 ms")
  from Cons.prems 1 2 have "s' = s2" by simp
  with push_mutation_applied_mono [OF 1] Cons.IH [OF 2] show ?case by blast
qed

lemma push_mutations_append:
  "push_mutations dispatch stale clientId s (xs @ ys) =
     (case push_mutations dispatch stale clientId s xs of
        (infos1, s1) \<Rightarrow>
          (case push_mutations dispatch stale clientId s1 ys of
             (infos2, s2) \<Rightarrow> (infos1 @ infos2, s2)))"
  by (induction xs arbitrary: s) (auto split: prod.splits)

text \<open>
  In any batch, a mutation whose id was recorded before the batch is passed over: the
  batch has the effect of the batch without it.
\<close>

lemma push_mutations_skip_recorded:
  assumes "(clientId, m_id m) \<in> applied s"
    and "push_mutations dispatch stale clientId s xs = (infos1, s1)"
    and "push_mutations dispatch stale clientId s1 ys = (infos2, s2)"
  shows "push_mutations dispatch stale clientId s (xs @ m # ys)
           = (infos1 @ (m_id m, alreadyApplied) # infos2, s2)"
proof -
  from push_mutations_applied_mono [OF assms(2)] assms(1)
  have "(clientId, m_id m) \<in> applied s1" by blast
  then have "push_mutation dispatch stale clientId s1 m = (alreadyApplied, s1)"
    by (rule push_mutation_recorded)
  with assms(2,3) show ?thesis
    by (simp add: push_mutations_append)
qed

lemma example_first_push:
  "push example_dispatch (\<lambda>_ _. None)
     \<lparr>req_clientId = ''client-a'', req_mutations = [example_mutation],
      req_lastMutationId = 0\<rparr> \<lparr>document = [], version = 0, applied = {}\<rparr>
     = (\<lparr>mutationInfos = [(1, ok)], newVersion = 1\<rparr>, example_server)"
  by (simp add: push_def push_mutation_def example_dispatch_def example_mutation_def
      example_server_def)

text \<open>
  C9. A push whose mutations all carry ids already recorded as applied for the pushing
  client, one such mutation or the same one retransmitted any number of times, reports
  \<open>alreadyApplied\<close> for each of them and returns the server's document unchanged: its
  state, its version and its record of applied ids are what they were, for every
  dispatcher and every precondition check.
\<close>

theorem push_resubmission_idempotent:
  assumes "\<forall>m \<in> set (req_mutations req). (req_clientId req, m_id m) \<in> applied s"
  shows "push dispatch stale req s =
           (\<lparr>mutationInfos = map (\<lambda>m. (m_id m, alreadyApplied)) (req_mutations req),
             newVersion = version s\<rparr>, s)"
  using assms by (simp add: push_def push_mutations_recorded)

theorem push_resubmission_idempotent_witness:
  "push example_dispatch (\<lambda>_ _. None)
     \<lparr>req_clientId = ''client-a'', req_mutations = [example_mutation, example_mutation],
      req_lastMutationId = 0\<rparr> example_server
     = (\<lparr>mutationInfos = [(1, alreadyApplied), (1, alreadyApplied)], newVersion = 1\<rparr>,
        example_server)"
  using push_resubmission_idempotent [of
      "\<lparr>req_clientId = ''client-a'', req_mutations = [example_mutation, example_mutation],
        req_lastMutationId = 0\<rparr>" example_server example_dispatch "\<lambda>_ _. None"]
  by (simp add: example_mutation_def example_server_def)

end
